theory Spec2Isabelle
  imports Complex_Main
begin

section \<open>Open3D LineSet: data model\<close>

text \<open>
  The class \<^verbatim>\<open>open3d::geometry::LineSet\<close> of \<^verbatim>\<open>Open3D/Geometry/LineSet.h\<close> has
  three public members: \<^verbatim>\<open>points_\<close> (a \<^verbatim>\<open>std::vector<Eigen::Vector3d>\<close>),
  \<^verbatim>\<open>lines_\<close> (a \<^verbatim>\<open>std::vector<Eigen::Vector2i>\<close>) and \<^verbatim>\<open>colors_\<close>
  (a \<^verbatim>\<open>std::vector<Eigen::Vector3d>\<close>).  A \<^verbatim>\<open>Vector3d\<close> is a triple of coordinates and
  a \<^verbatim>\<open>Vector2i\<close> a pair of \<^verbatim>\<open>int\<close> point indices.  Coordinates are taken in exact
  arithmetic (\<^typ>\<open>real\<close>); rounding of \<^verbatim>\<open>double\<close> is outside this development.
\<close>

type_synonym Vector3d = "real \<times> real \<times> real"
type_synonym Vector2i = "int \<times> int"

record LineSet =
  points :: "Vector3d list"
  lines :: "Vector2i list"
  colors :: "Vector3d list"


definition LineSet_ctor :: "Vector3d list \<Rightarrow> Vector2i list \<Rightarrow> LineSet" where
  "LineSet_ctor ps ls = \<lparr>points = ps, lines = ls, colors = []\<rparr>"

subsection \<open>Predicates defined in the header\<close>

definition HasPoints :: "LineSet \<Rightarrow> bool" where
  "HasPoints L = (length (points L) > 0)"

definition HasLines :: "LineSet \<Rightarrow> bool" where
  "HasLines L = (HasPoints L \<and> length (lines L) > 0)"

definition HasColors :: "LineSet \<Rightarrow> bool" where
  "HasColors L = (HasLines L \<and> length (colors L) = length (lines L))"

subsection \<open>Unchecked element access\<close>

text \<open>
  \<^verbatim>\<open>std::vector::operator[]\<close> performs no bounds check; reading past the end is
  undefined behaviour.  The model makes that outcome a value: \<open>Inl OutOfRange\<close>.
\<close>

datatype fault = OutOfRange

definition vector_at :: "'a list \<Rightarrow> nat \<Rightarrow> fault + 'a" where
  "vector_at xs i = (if i < length xs then Inr (xs ! i) else Inl OutOfRange)"

text \<open>
  A component of a \<^verbatim>\<open>Vector2i\<close> is an \<^verbatim>\<open>int\<close>; used as a subscript it is converted to
  \<^verbatim>\<open>size_t\<close>.  A negative value becomes at least \<open>2^64 - 2^31\<close>, which is beyond the
  \<^verbatim>\<open>max_size()\<close> of any vector of points, so a negative index is out of range.
\<close>

definition vector_at_int :: "'a list \<Rightarrow> int \<Rightarrow> fault + 'a" where
  "vector_at_int xs i =
     (if 0 \<le> i \<and> i < int (length xs) then Inr (xs ! nat i) else Inl OutOfRange)"

text \<open>
  \<^verbatim>\<open>
  std::pair<Eigen::Vector3d, Eigen::Vector3d> GetLineCoordinate(size_t line_index) const {
      return std::make_pair(points_[lines_[line_index][0]],
                            points_[lines_[line_index][1]]);
  }
  \<close>
\<close>

definition GetLineCoordinate :: "LineSet \<Rightarrow> nat \<Rightarrow> fault + (Vector3d \<times> Vector3d)" where
  "GetLineCoordinate L line_index =
     (case vector_at (lines L) line_index of
        Inl e \<Rightarrow> Inl e
      | Inr line \<Rightarrow>
          (case vector_at_int (points L) (fst line) of
             Inl e \<Rightarrow> Inl e
           | Inr p \<Rightarrow>
               (case vector_at_int (points L) (snd line) of
                  Inl e \<Rightarrow> Inl e
                | Inr q \<Rightarrow> Inr (p, q))))"

section \<open>Member functions declared in the header and defined elsewhere\<close>

text \<open>
  The header only declares \<^verbatim>\<open>Clear\<close>, \<^verbatim>\<open>IsEmpty\<close>, \<^verbatim>\<open>GetCenter\<close>, \<^verbatim>\<open>Transform\<close>,
  \<^verbatim>\<open>Translate\<close>, \<^verbatim>\<open>Rotate\<close> and the factory functions; their bodies are in a
  translation unit that is not part of the sources at hand.  Each definition of this
  section therefore follows the written specification of the component, section 4.
\<close>

subsection \<open>Vector arithmetic\<close>

text \<open>Modelled from the spec: componentwise sum of two \<^verbatim>\<open>Vector3d\<close> (Eigen's
  \<^verbatim>\<open>operator+\<close>, not in the sources).\<close>

fun vadd :: "Vector3d \<Rightarrow> Vector3d \<Rightarrow> Vector3d" where
  "vadd (x, y, z) (u, v, w) = (x + u, y + v, z + w)"

text \<open>Modelled from the spec: componentwise difference of two \<^verbatim>\<open>Vector3d\<close> (Eigen's
  \<^verbatim>\<open>operator-\<close>, not in the sources).\<close>

fun vsub :: "Vector3d \<Rightarrow> Vector3d \<Rightarrow> Vector3d" where
  "vsub (x, y, z) (u, v, w) = (x - u, y - v, z - w)"

text \<open>Modelled from the spec: product of a scalar and a \<^verbatim>\<open>Vector3d\<close> (Eigen's
  \<^verbatim>\<open>operator*\<close>, not in the sources).\<close>

fun smul :: "real \<Rightarrow> Vector3d \<Rightarrow> Vector3d" where
  "smul s (x, y, z) = (s * x, s * y, s * z)"

type_synonym Matrix3d = "Vector3d \<times> Vector3d \<times> Vector3d"
type_synonym Vector4d = "real \<times> real \<times> real \<times> real"
type_synonym Matrix4d = "Vector4d \<times> Vector4d \<times> Vector4d \<times> Vector4d"

text \<open>Modelled from the spec: scalar product of two \<^verbatim>\<open>Vector3d\<close>, used for the rows of a
  \<^verbatim>\<open>Matrix3d\<close> (Eigen's matrix product, not in the sources).\<close>

fun dot3 :: "Vector3d \<Rightarrow> Vector3d \<Rightarrow> real" where
  "dot3 (a, b, c) (x, y, z) = a * x + b * y + c * z"

text \<open>Modelled from the spec: product of a \<^verbatim>\<open>Matrix3d\<close>, given by its rows, and a
  \<^verbatim>\<open>Vector3d\<close> (Eigen's matrix product, not in the sources).\<close>

fun mul3 :: "Matrix3d \<Rightarrow> Vector3d \<Rightarrow> Vector3d" where
  "mul3 (r0, r1, r2) p = (dot3 r0 p, dot3 r1 p, dot3 r2 p)"

text \<open>Modelled from the spec: scalar product of a row of a \<^verbatim>\<open>Matrix4d\<close> with the
  homogeneous coordinates \<open>(x, y, z, 1)\<close> of a point (Eigen's matrix product, not in the
  sources).\<close>

fun dot4h :: "Vector4d \<Rightarrow> Vector3d \<Rightarrow> real" where
  "dot4h (a, b, c, d) (x, y, z) = a * x + b * y + c * z + d"

subsection \<open>Clear, IsEmpty, GetCenter\<close>

text \<open>Modelled from the spec: \<^verbatim>\<open>LineSet::Clear\<close>, declared in the header, body not in the
  sources.  ``Empties \<^verbatim>\<open>points\<close>, \<^verbatim>\<open>lines\<close>, \<^verbatim>\<open>colors\<close>; returns the mutated instance.''\<close>

definition Clear :: "LineSet \<Rightarrow> LineSet" where
  "Clear L = L\<lparr>points := [], lines := [], colors := []\<rparr>"

text \<open>
  \<^verbatim>\<open>Clear\<close> returns a reference.  To say which object the reference denotes, objects live
  in a store indexed by address; a member function takes the store and the address of
  \<^verbatim>\<open>this\<close> and returns the new store and the address it returns.
\<close>

type_synonym address = nat
type_synonym store = "address \<Rightarrow> LineSet"

text \<open>Modelled from the spec: \<^verbatim>\<open>LineSet::Clear\<close> on an object in the store, returning
  the address of the mutated instance (the body is not in the sources).\<close>

definition Clear_ref :: "store \<Rightarrow> address \<Rightarrow> store \<times> address" where
  "Clear_ref h this = (h(this := Clear (h this)), this)"

text \<open>Modelled from the spec: \<^verbatim>\<open>LineSet::IsEmpty\<close>, declared in the header, body not in
  the sources.  ``True iff \<^verbatim>\<open>points\<close> is empty.''\<close>

definition IsEmpty :: "LineSet \<Rightarrow> bool" where
  "IsEmpty L = (\<not> HasPoints L)"

text \<open>Modelled from the spec: \<^verbatim>\<open>LineSet::GetCenter\<close>, declared in the header, body not in
  the sources.  ``Arithmetic mean of all points; zero vector if empty.''\<close>

definition GetCenter :: "LineSet \<Rightarrow> Vector3d" where
  "GetCenter L =
     (if points L = [] then (0, 0, 0)
      else smul (1 / real (length (points L))) (foldl vadd (0, 0, 0) (points L)))"

subsection \<open>Transform, Translate, Rotate\<close>

text \<open>Modelled from the spec: the action of a 4x4 homogeneous transform on one point:
  ``translation + linear part via homogeneous coordinates, normalized by the homogeneous
  component'' (part of \<^verbatim>\<open>LineSet::Transform\<close>, whose body is not in the sources).  A
  vanishing homogeneous component makes the \<^verbatim>\<open>double\<close> division yield infinities or
  NaN; on \<^typ>\<open>real\<close> it yields 0, and nothing below depends on that case.\<close>

fun TransformPoint :: "Matrix4d \<Rightarrow> Vector3d \<Rightarrow> Vector3d" where
  "TransformPoint (r0, r1, r2, r3) p =
     (dot4h r0 p / dot4h r3 p, dot4h r1 p / dot4h r3 p, dot4h r2 p / dot4h r3 p)"

text \<open>Modelled from the spec: \<^verbatim>\<open>LineSet::Transform\<close>, declared in the header, body not in
  the sources.  ``Applies a general 4x4 homogeneous transform to every point.''\<close>

definition Transform :: "Matrix4d \<Rightarrow> LineSet \<Rightarrow> LineSet" where
  "Transform transformation L = L\<lparr>points := map (TransformPoint transformation) (points L)\<rparr>"


text \<open>Modelled from the spec: \<^verbatim>\<open>LineSet::Rotate\<close>, declared in the header, body not in
  the sources.  ``If \<^verbatim>\<open>center\<close> is true, rotates points about the centroid
  (\<^verbatim>\<open>p' = centroid + R*(p - centroid)\<close>); if false, rotates about the origin.''\<close>

definition Rotate :: "Matrix3d \<Rightarrow> bool \<Rightarrow> LineSet \<Rightarrow> LineSet" where
  "Rotate R center L =
     (if center
      then (let c = GetCenter L
            in L\<lparr>points := map (\<lambda>p. vadd c (mul3 R (vsub p c))) (points L)\<rparr>)
      else L\<lparr>points := map (mul3 R) (points L)\<rparr>)"

subsection \<open>Mesh-edge factories\<close>

text \<open>
  The meshes are classes of other headers (only forward-declared here).  The
  specification describes what the factories read of them: a vertex list and a cell
  list, triangles as 3-tuples and tetrahedra as 4-tuples of vertex indices.
\<close>

record TriangleMesh =
  vertices :: "Vector3d list"
  triangles :: "(int \<times> int \<times> int) list"

record TetraMesh =
  tetra_vertices :: "Vector3d list"
  tetras :: "(int \<times> int \<times> int \<times> int) list"

text \<open>Modelled from the spec: the canonical key of an edge, ``ordered pair with the
  smaller index first'' (\<^verbatim>\<open>(min(i,j), max(i,j))\<close>); part of the factories, whose bodies
  are not in the sources.\<close>

definition edge_key :: "int \<Rightarrow> int \<Rightarrow> Vector2i" where
  "edge_key i j = (min i j, max i j)"

text \<open>Modelled from the spec: one step of the deduplication, on the pair of the keys
  inserted so far and the lines emitted so far: an edge whose key is new is recorded and
  appended to the output (first-seen order, with the orientation in which it was first
  seen), any other edge is skipped.  Part of the factories, whose bodies are not in the
  sources.\<close>

definition InsertEdge ::
  "Vector2i list \<times> Vector2i list \<Rightarrow> Vector2i \<Rightarrow> Vector2i list \<times> Vector2i list" where
  "InsertEdge st e =
     (case st of (inserted, out) \<Rightarrow>
        if edge_key (fst e) (snd e) \<in> set inserted then (inserted, out)
        else (edge_key (fst e) (snd e) # inserted, out @ [e]))"

text \<open>Modelled from the spec: the edges of a triangle, ``3 edges each'' (part of
  \<^verbatim>\<open>CreateFromTriangleMesh\<close>, body not in the sources).\<close>

fun triangle_edges :: "int \<times> int \<times> int \<Rightarrow> Vector2i list" where
  "triangle_edges (a, b, c) = [(a, b), (b, c), (c, a)]"

text \<open>Modelled from the spec: the edges of a tetrahedron, ``6 edges each, i.e. all
  C(4,2) vertex pairs'' (part of \<^verbatim>\<open>CreateFromTetraMesh\<close>, body not in the sources).\<close>

fun tetra_edges :: "int \<times> int \<times> int \<times> int \<Rightarrow> Vector2i list" where
  "tetra_edges (a, b, c, d) = [(a, b), (a, c), (a, d), (b, c), (b, d), (c, d)]"

text \<open>Modelled from the spec: the loop over the cells of a mesh, each cell contributing
  its edges in turn, starting with nothing inserted and nothing emitted; the result is
  the list of emitted lines (part of the factories, bodies not in the sources).\<close>

definition unique_edges :: "('c \<Rightarrow> Vector2i list) \<Rightarrow> 'c list \<Rightarrow> Vector2i list" where
  "unique_edges edges_of cells =
     snd (foldl (\<lambda>st cell. foldl InsertEdge st (edges_of cell)) ([], []) cells)"

text \<open>Modelled from the spec: \<^verbatim>\<open>LineSet::CreateFromTriangleMesh\<close>, declared in the header,
  body not in the sources.  ``Points are copied directly from the mesh's vertex list.
  Lines are the set of unique undirected edges implied by the mesh's cells.''\<close>

definition CreateFromTriangleMesh :: "TriangleMesh \<Rightarrow> LineSet" where
  "CreateFromTriangleMesh mesh =
     \<lparr>points = vertices mesh, lines = unique_edges triangle_edges (triangles mesh),
      colors = []\<rparr>"

text \<open>Modelled from the spec: \<^verbatim>\<open>LineSet::CreateFromTetraMesh\<close>, declared in the header,
  body not in the sources.  Same rule as for triangles, with the six edges of each
  tetrahedron.\<close>

definition CreateFromTetraMesh :: "TetraMesh \<Rightarrow> LineSet" where
  "CreateFromTetraMesh mesh =
     \<lparr>points = tetra_vertices mesh, lines = unique_edges tetra_edges (tetras mesh),
      colors = []\<rparr>"

subsection \<open>Undirected edges\<close>

text \<open>The undirected edge that a line denotes: the set of its two endpoints, so that
  the edge between \<open>i\<close> and \<open>j\<close> is the edge between \<open>j\<close> and \<open>i\<close>.\<close>

definition undirected :: "Vector2i \<Rightarrow> int set" where
  "undirected e = {fst e, snd e}"

text \<open>The canonical key of a line, and the invariant of the deduplication loop: the keys
  inserted are the keys of the lines emitted, and no two emitted lines have the same
  key.\<close>

abbreviation key_of :: "Vector2i \<Rightarrow> Vector2i" where
  "key_of e \<equiv> edge_key (fst e) (snd e)"

definition dedup_inv :: "Vector2i list \<times> Vector2i list \<Rightarrow> bool" where
  "dedup_inv st = (set (fst st) = key_of ` set (snd st) \<and> distinct (map key_of (snd st)))"

section \<open>Properties of the header's predicates\<close>

lemma HasLines_unfold:
  "HasLines L \<longleftrightarrow> points L \<noteq> [] \<and> lines L \<noteq> []"
  by (simp add: HasLines_def HasPoints_def)

text \<open>
  Claim C5.  \<open>HasLines\<close> is true exactly when \<open>HasPoints\<close> is true and the list of
  lines is not empty; a line set that has lines but no points reports \<open>HasLines = False\<close>.
\<close>

theorem HasLines_iff:
  "(HasLines L \<longleftrightarrow> HasPoints L \<and> lines L \<noteq> []) \<and>
   (lines L \<noteq> [] \<and> points L = [] \<longrightarrow> \<not> HasLines L)"
  by (simp add: HasLines_def HasPoints_def)

theorem HasLines_iff_witness:
  "lines (LineSet_ctor [] [(0, 1)]) \<noteq> [] \<and> points (LineSet_ctor [] [(0, 1)]) = [] \<and>
   \<not> HasLines (LineSet_ctor [] [(0, 1)]) \<and>
   HasLines (LineSet_ctor [(0, 0, 0), (1, 0, 0)] [(0, 1)])"
  using HasLines_iff [of "LineSet_ctor [] [(0, 1)]"]
        HasLines_iff [of "LineSet_ctor [(0, 0, 0), (1, 0, 0)] [(0, 1)]"]
  by (simp add: LineSet_ctor_def HasPoints_def)

text \<open>
  Claim C4.  \<open>HasColors\<close> is true exactly when \<open>HasLines\<close> is true and there are as many
  colours as lines; with a different number of colours and lines it is false.  In
  particular the two-argument constructor, which leaves the colours empty, never yields
  a line set with colours.
\<close>

theorem HasColors_iff:
  "(HasColors L \<longleftrightarrow> HasLines L \<and> length (colors L) = length (lines L)) \<and>
   (length (colors L) \<noteq> length (lines L) \<longrightarrow> \<not> HasColors L) \<and>
   \<not> HasColors (LineSet_ctor ps ls)"
  by (auto simp add: HasColors_def HasLines_def HasPoints_def LineSet_ctor_def)

theorem HasColors_iff_witness:
  "length (colors \<lparr>points = [(0, 0, 0), (1, 0, 0)], lines = [(0, 1)],
                   colors = [(1, 0, 0), (0, 1, 0)]\<rparr>)
     \<noteq> length (lines \<lparr>points = [(0, 0, 0), (1, 0, 0)], lines = [(0, 1)],
                   colors = [(1, 0, 0), (0, 1, 0)]\<rparr>) \<and>
   \<not> HasColors \<lparr>points = [(0, 0, 0), (1, 0, 0)], lines = [(0, 1)],
                 colors = [(1, 0, 0), (0, 1, 0)]\<rparr> \<and>
   HasColors \<lparr>points = [(0, 0, 0), (1, 0, 0)], lines = [(0, 1)], colors = [(1, 0, 0)]\<rparr>"
  using HasColors_iff [of "\<lparr>points = [(0, 0, 0), (1, 0, 0)], lines = [(0, 1)],
                            colors = [(1, 0, 0), (0, 1, 0)]\<rparr>"]
        HasColors_iff [of "\<lparr>points = [(0, 0, 0), (1, 0, 0)], lines = [(0, 1)],
                            colors = [(1, 0, 0)]\<rparr>"]
  by (simp add: HasLines_unfold)

section \<open>GetLineCoordinate\<close>

lemma nth_nat_mem: "0 \<le> i \<Longrightarrow> i < int (length xs) \<Longrightarrow> xs ! nat i \<in> set xs"
  by (simp add: nat_less_iff)

lemma GetLineCoordinate_eq:
  "GetLineCoordinate L k =
     (if k < length (lines L) \<and>
         0 \<le> fst (lines L ! k) \<and> fst (lines L ! k) < int (length (points L)) \<and>
         0 \<le> snd (lines L ! k) \<and> snd (lines L ! k) < int (length (points L))
      then Inr (points L ! nat (fst (lines L ! k)), points L ! nat (snd (lines L ! k)))
      else Inl OutOfRange)"
  by (simp add: GetLineCoordinate_def vector_at_def vector_at_int_def)

text \<open>
  Claim C9.  The precondition of \<open>GetLineCoordinate L k\<close> is that \<open>k\<close> is an index of
  \<open>lines\<close> and that both point indices stored in line \<open>k\<close> are indices of \<open>points\<close>.
  Under it every subscript is in range and the call returns the two endpoint coordinates
  of line \<open>k\<close>.  Without it the function, which checks nothing, reads out of range:
  the call returns no pair, only the fault.
\<close>

theorem GetLineCoordinate_precondition:
  "(k < length (lines L) \<and>
    0 \<le> fst (lines L ! k) \<and> fst (lines L ! k) < int (length (points L)) \<and>
    0 \<le> snd (lines L ! k) \<and> snd (lines L ! k) < int (length (points L))
    \<longrightarrow> (\<exists>p q. GetLineCoordinate L k = Inr (p, q) \<and>
              p = points L ! nat (fst (lines L ! k)) \<and> p \<in> set (points L) \<and>
              q = points L ! nat (snd (lines L ! k)) \<and> q \<in> set (points L))) \<and>
   (\<not> (k < length (lines L) \<and>
       0 \<le> fst (lines L ! k) \<and> fst (lines L ! k) < int (length (points L)) \<and>
       0 \<le> snd (lines L ! k) \<and> snd (lines L ! k) < int (length (points L)))
    \<longrightarrow> GetLineCoordinate L k = Inl OutOfRange)"
  by (simp add: GetLineCoordinate_eq nth_nat_mem)

theorem GetLineCoordinate_precondition_witness:
  "GetLineCoordinate (LineSet_ctor [(0, 0, 0), (1, 2, 3)] [(0, 1), (1, 2), (-1, 0)]) 0
     = Inr ((0, 0, 0), (1, 2, 3)) \<and>
   GetLineCoordinate (LineSet_ctor [(0, 0, 0), (1, 2, 3)] [(0, 1), (1, 2), (-1, 0)]) 1
     = Inl OutOfRange \<and>
   GetLineCoordinate (LineSet_ctor [(0, 0, 0), (1, 2, 3)] [(0, 1), (1, 2), (-1, 0)]) 2
     = Inl OutOfRange \<and>
   GetLineCoordinate (LineSet_ctor [(0, 0, 0), (1, 2, 3)] [(0, 1), (1, 2), (-1, 0)]) 3
     = Inl OutOfRange"
  using GetLineCoordinate_precondition
          [of 0 "LineSet_ctor [(0, 0, 0), (1, 2, 3)] [(0, 1), (1, 2), (-1, 0)]"]
        GetLineCoordinate_precondition
          [of 1 "LineSet_ctor [(0, 0, 0), (1, 2, 3)] [(0, 1), (1, 2), (-1, 0)]"]
        GetLineCoordinate_precondition
          [of 2 "LineSet_ctor [(0, 0, 0), (1, 2, 3)] [(0, 1), (1, 2), (-1, 0)]"]
        GetLineCoordinate_precondition
          [of 3 "LineSet_ctor [(0, 0, 0), (1, 2, 3)] [(0, 1), (1, 2), (-1, 0)]"]
  by (simp add: LineSet_ctor_def)

text \<open>
  Claim C10.  For a line index that satisfies the precondition, \<open>GetLineCoordinate\<close>
  returns the endpoints in the stored order: first the point at the first index of the
  line, then the point at its second index.  Nothing is swapped or put into a canonical
  order: exchanging the two indices stored in line \<open>k\<close> exchanges the two coordinates
  returned.
\<close>

theorem GetLineCoordinate_stored_order:
  "(k < length (lines L) \<and>
    0 \<le> fst (lines L ! k) \<and> fst (lines L ! k) < int (length (points L)) \<and>
    0 \<le> snd (lines L ! k) \<and> snd (lines L ! k) < int (length (points L))
    \<longrightarrow> GetLineCoordinate L k
          = Inr (points L ! nat (fst (lines L ! k)), points L ! nat (snd (lines L ! k)))) \<and>
   GetLineCoordinate (L\<lparr>lines := (lines L)[k := prod.swap (lines L ! k)]\<rparr>) k
     = map_sum id prod.swap (GetLineCoordinate L k)"
  by (auto simp add: GetLineCoordinate_eq)

theorem GetLineCoordinate_stored_order_witness:
  "GetLineCoordinate (LineSet_ctor [(0, 0, 0), (1, 2, 3)] [(1, 0)]) 0
     = Inr ((1, 2, 3), (0, 0, 0)) \<and>
   GetLineCoordinate (LineSet_ctor [(0, 0, 0), (1, 2, 3)] [(0, 1)]) 0
     = Inr ((0, 0, 0), (1, 2, 3))"
  using GetLineCoordinate_stored_order [of 0 "LineSet_ctor [(0, 0, 0), (1, 2, 3)] [(1, 0)]"]
        GetLineCoordinate_stored_order [of 0 "LineSet_ctor [(0, 0, 0), (1, 2, 3)] [(0, 1)]"]
  by (simp add: LineSet_ctor_def)

section \<open>Clear\<close>

text \<open>
  Claim C8.  After \<open>Clear\<close> the points, the lines and the colours are all empty, so
  \<open>IsEmpty\<close> holds and \<open>HasLines\<close> and \<open>HasColors\<close> do not.  \<open>Clear\<close> returns the
  instance it was called on, mutated: the address returned is the address of \<open>this\<close>,
  the object at that address is the cleared one, and no other object changes; a
  chained call therefore sees the cleared object.
\<close>

theorem Clear_empties:
  "points (Clear L) = [] \<and> lines (Clear L) = [] \<and> colors (Clear L) = [] \<and>
   IsEmpty (Clear L) \<and> \<not> HasLines (Clear L) \<and> \<not> HasColors (Clear L) \<and>
   snd (Clear_ref h this) = this \<and>
   fst (Clear_ref h this) = h(this := Clear (h this)) \<and>
   IsEmpty (fst (Clear_ref h this) (snd (Clear_ref h this)))"
  by (simp add: Clear_def Clear_ref_def IsEmpty_def HasColors_def HasLines_def HasPoints_def)

section \<open>Transform and Rotate\<close>

text \<open>
  Claim C7.  \<open>Transform\<close> with any 4x4 matrix and \<open>Rotate\<close> with any 3x3 matrix, about
  the centroid or about the origin, leave the lines and the colours as they were, the
  same sequences of index pairs and colour values; only the coordinates of the points
  change, and their number does not.
\<close>

theorem Transform_Rotate_frame:
  "lines (Transform M L) = lines L \<and> colors (Transform M L) = colors L \<and>
   length (points (Transform M L)) = length (points L) \<and>
   lines (Rotate R c L) = lines L \<and> colors (Rotate R c L) = colors L \<and>
   length (points (Rotate R c L)) = length (points L)"
  by (simp add: Transform_def Rotate_def Let_def)

section \<open>Translate\<close>













section \<open>Edges of a mesh\<close>

lemma undirected_key_of: "undirected (key_of e) = undirected e"
  by (auto simp add: undirected_def edge_key_def min_def max_def)

lemma key_of_eq_iff: "key_of e = key_of e' \<longleftrightarrow> undirected e = undirected e'"
  by (auto simp add: undirected_def edge_key_def doubleton_eq_iff min_def max_def
      split: if_splits)

lemma InsertEdge_inv: "dedup_inv st \<Longrightarrow> dedup_inv (InsertEdge st e)"
  by (cases st) (simp add: dedup_inv_def InsertEdge_def)

lemma InsertEdge_keys:
  "dedup_inv st \<Longrightarrow>
   key_of ` set (snd (InsertEdge st e)) = insert (key_of e) (key_of ` set (snd st))"
  by (cases st) (simp add: dedup_inv_def InsertEdge_def insert_absorb)

lemma foldl_InsertEdge:
  "dedup_inv st \<Longrightarrow>
   dedup_inv (foldl InsertEdge st es) \<and>
   key_of ` set (snd (foldl InsertEdge st es)) = key_of ` set es \<union> key_of ` set (snd st)"
proof (induction es arbitrary: st)
  case Nil
  then show ?case by simp
next
  case (Cons e es)
  from Cons.prems have inv': "dedup_inv (InsertEdge st e)" by (rule InsertEdge_inv)
  from Cons.IH [OF inv'] InsertEdge_keys [OF Cons.prems, of e]
  show ?case by auto
qed

lemma InsertEdge_subset: "set (snd (InsertEdge st e)) \<subseteq> insert e (set (snd st))"
  by (cases st) (simp add: InsertEdge_def subset_insertI)

lemma foldl_InsertEdge_subset:
  "set (snd (foldl InsertEdge st es)) \<subseteq> set es \<union> set (snd st)"
proof (induction es arbitrary: st)
  case Nil
  then show ?case by simp
next
  case (Cons e es)
  from Cons.IH [of "InsertEdge st e"] InsertEdge_subset [of st e]
  show ?case by auto
qed

lemma foldl_cells:
  "foldl (\<lambda>st cell. foldl f st (g cell)) st cells = foldl f st (concat (map g cells))"
  by (induction cells arbitrary: st) simp_all

lemma unique_edges_subset: "set (unique_edges g cells) \<subseteq> set (concat (map g cells))"
  using foldl_InsertEdge_subset [of "([], [])" "concat (map g cells)"]
  by (simp add: unique_edges_def foldl_cells)

lemma unique_edges_keys:
  "distinct (map key_of (unique_edges g cells)) \<and>
   key_of ` set (unique_edges g cells) = key_of ` set (concat (map g cells))"
proof -
  have "dedup_inv ([], [])" by (simp add: dedup_inv_def)
  from foldl_InsertEdge [OF this, of "concat (map g cells)"]
  show ?thesis by (simp add: unique_edges_def foldl_cells dedup_inv_def)
qed

lemma distinct_map_undirected:
  "distinct (map undirected es) \<longleftrightarrow> distinct (map key_of es)"
  by (simp add: distinct_map inj_on_def key_of_eq_iff)

lemma image_undirected: "undirected ` A = undirected ` (key_of ` A)"
  by (simp add: image_image undirected_key_of)

lemma unique_edges_undirected:
  "distinct (map undirected (unique_edges g cells)) \<and>
   undirected ` set (unique_edges g cells) = undirected ` set (concat (map g cells))"
  using unique_edges_keys [of g cells] image_undirected [of "set (unique_edges g cells)"]
    image_undirected [of "set (concat (map g cells))"]
  by (simp add: distinct_map_undirected)

lemma unique_edges_length:
  "length (unique_edges g cells) = card (undirected ` set (concat (map g cells)))"
proof -
  have "length (unique_edges g cells) = length (map undirected (unique_edges g cells))"
    by simp
  also have "\<dots> = card (set (map undirected (unique_edges g cells)))"
    using unique_edges_undirected [of g cells] by (simp only: distinct_card)
  also have "\<dots> = card (undirected ` set (concat (map g cells)))"
    using unique_edges_undirected [of g cells] by simp
  finally show ?thesis .
qed

lemma two_triangles_card:
  "distinct [a, b, c, d] \<Longrightarrow>
   card (undirected ` set (concat (map triangle_edges [(a, b, c), (c, b, d)]))) = 5"
  by (auto simp add: undirected_def doubleton_eq_iff card_insert_if)

lemma one_tetra_card:
  "distinct [a, b, c, d] \<Longrightarrow>
   card (undirected ` set (concat (map tetra_edges [(a, b, c, d)]))) = 6"
  by (simp add: undirected_def doubleton_eq_iff card_insert_if)

text \<open>
  Claim C1.  For every triangle mesh and every tetra mesh the factory copies the
  vertices and emits as lines exactly the undirected edges of the cells, each once:
  the edge between \<open>i\<close> and \<open>j\<close> is the edge between \<open>j\<close> and \<open>i\<close>; no two lines of the
  output are the same undirected edge, however many cells share it; every undirected
  edge of a cell is the undirected edge of a line and every line is an edge of a cell.
  So the number of lines is the number of undirected edges of the cells: two triangles
  that share one edge give 5 lines and a single tetrahedron gives 6.
\<close>

theorem mesh_edges_unique:
  "undirected (i, j) = undirected (j, i) \<and>
   points (CreateFromTriangleMesh tm) = vertices tm \<and>
   distinct (map undirected (lines (CreateFromTriangleMesh tm))) \<and>
   undirected ` set (lines (CreateFromTriangleMesh tm))
     = undirected ` (\<Union>t \<in> set (triangles tm). set (triangle_edges t)) \<and>
   set (lines (CreateFromTriangleMesh tm)) \<subseteq> (\<Union>t \<in> set (triangles tm). set (triangle_edges t)) \<and>
   length (lines (CreateFromTriangleMesh tm))
     = card (undirected ` (\<Union>t \<in> set (triangles tm). set (triangle_edges t))) \<and>
   points (CreateFromTetraMesh km) = tetra_vertices km \<and>
   distinct (map undirected (lines (CreateFromTetraMesh km))) \<and>
   undirected ` set (lines (CreateFromTetraMesh km))
     = undirected ` (\<Union>t \<in> set (tetras km). set (tetra_edges t)) \<and>
   set (lines (CreateFromTetraMesh km)) \<subseteq> (\<Union>t \<in> set (tetras km). set (tetra_edges t)) \<and>
   length (lines (CreateFromTetraMesh km))
     = card (undirected ` (\<Union>t \<in> set (tetras km). set (tetra_edges t))) \<and>
   (distinct [a, b, c, d] \<longrightarrow>
      length (lines (CreateFromTriangleMesh
         \<lparr>vertices = vs, triangles = [(a, b, c), (c, b, d)]\<rparr>)) = 5) \<and>
   (distinct [a, b, c, d] \<longrightarrow>
      length (lines (CreateFromTetraMesh
         \<lparr>tetra_vertices = vs, tetras = [(a, b, c, d)]\<rparr>)) = 6)"
proof -
  have sym: "undirected (i, j) = undirected (j, i)"
    by (auto simp add: undirected_def)
  have tri: "distinct (map undirected (lines (CreateFromTriangleMesh tm))) \<and>
      undirected ` set (lines (CreateFromTriangleMesh tm))
        = undirected ` (\<Union>t \<in> set (triangles tm). set (triangle_edges t)) \<and>
      set (lines (CreateFromTriangleMesh tm))
        \<subseteq> (\<Union>t \<in> set (triangles tm). set (triangle_edges t)) \<and>
      length (lines (CreateFromTriangleMesh tm))
        = card (undirected ` (\<Union>t \<in> set (triangles tm). set (triangle_edges t)))"
    using unique_edges_undirected [of triangle_edges "triangles tm"]
      unique_edges_subset [of triangle_edges "triangles tm"]
      unique_edges_length [of triangle_edges "triangles tm"]
    by (simp add: CreateFromTriangleMesh_def)
  have tet: "distinct (map undirected (lines (CreateFromTetraMesh km))) \<and>
      undirected ` set (lines (CreateFromTetraMesh km))
        = undirected ` (\<Union>t \<in> set (tetras km). set (tetra_edges t)) \<and>
      set (lines (CreateFromTetraMesh km))
        \<subseteq> (\<Union>t \<in> set (tetras km). set (tetra_edges t)) \<and>
      length (lines (CreateFromTetraMesh km))
        = card (undirected ` (\<Union>t \<in> set (tetras km). set (tetra_edges t)))"
    using unique_edges_undirected [of tetra_edges "tetras km"]
      unique_edges_subset [of tetra_edges "tetras km"]
      unique_edges_length [of tetra_edges "tetras km"]
    by (simp add: CreateFromTetraMesh_def)
  have five: "length (lines (CreateFromTriangleMesh
      \<lparr>vertices = vs, triangles = [(a, b, c), (c, b, d)]\<rparr>)) = 5" if "distinct [a, b, c, d]"
    using two_triangles_card [OF that]
    by (simp only: CreateFromTriangleMesh_def unique_edges_length LineSet.simps
        TriangleMesh.simps)
  have six: "length (lines (CreateFromTetraMesh
      \<lparr>tetra_vertices = vs, tetras = [(a, b, c, d)]\<rparr>)) = 6" if "distinct [a, b, c, d]"
    using one_tetra_card [OF that]
    by (simp only: CreateFromTetraMesh_def unique_edges_length LineSet.simps
        TetraMesh.simps)
  have pts: "points (CreateFromTriangleMesh tm) = vertices tm"
    "points (CreateFromTetraMesh km) = tetra_vertices km"
    by (simp_all add: CreateFromTriangleMesh_def CreateFromTetraMesh_def)
  from sym tri tet five six pts show ?thesis
    by (intro conjI impI) simp_all
qed

theorem mesh_edges_unique_witness:
  "length (lines (CreateFromTriangleMesh
      \<lparr>vertices = [(0, 0, 0), (1, 0, 0), (0, 1, 0), (1, 1, 0)],
       triangles = [(0, 1, 2), (2, 1, 3)]\<rparr>)) = 5 \<and>
   length (lines (CreateFromTetraMesh
      \<lparr>tetra_vertices = [(0, 0, 0), (1, 0, 0), (0, 1, 0), (0, 0, 1)],
       tetras = [(0, 1, 2, 3)]\<rparr>)) = 6"
  using mesh_edges_unique [where a = 0 and b = 1 and c = 2 and d = 3
      and vs = "[(0, 0, 0), (1, 0, 0), (0, 1, 0), (1, 1, 0)]"]
    mesh_edges_unique [where a = 0 and b = 1 and c = 2 and d = 3
      and vs = "[(0, 0, 0), (1, 0, 0), (0, 1, 0), (0, 0, 1)]"]
  by simp

end
